theory Spec2Isabelle
  imports Main "HOL-Library.Word" "HOL-Library.Signed_Division"
begin

section \<open>Appointment scheduling and encounter lifecycle of the hospital EMR backend\<close>

text \<open>
  The development embeds the service layer of the packages \<^verbatim>\<open>scheduling\<close> and
  \<^verbatim>\<open>encounter\<close> together with the model structs, the error constructors and the
  messaging client they use.

  Conventions of the embedding:
  \<^item> a \<^verbatim>\<open>time.Time\<close> is the instant it denotes, an integer number of nanoseconds since
    the Unix epoch; calendar computations are done in UTC, the location of every date the
    HTTP handlers pass in (\<^verbatim>\<open>time.Parse("2006-01-02", ...)\<close>);
  \<^item> Go's \<^verbatim>\<open>int\<close> and \<^verbatim>\<open>time.Duration\<close> are 64-bit words, so that
    \<^verbatim>\<open>time.Duration(req.Duration) * time.Minute\<close> wraps around as it does in Go;
  \<^item> a \<^verbatim>\<open>uuid.UUID\<close> is a natural number, \<^verbatim>\<open>uuid.Nil\<close> is 0;
  \<^item> the typed string constants (\<^verbatim>\<open>AppointmentStatus\<close>, \<^verbatim>\<open>EncounterStatus\<close>, ...) are
    strings, as in Go, where a request may carry any string;
  \<^item> the relational store is a record of tables, each table the list of its live rows
    (no operation of the repository deletes an appointment or an encounter); a query is a
    function of the store, a write returns the new store. The store always answers: the
    only storage errors of the model are a missing row and a violated unique index;
  \<^item> the clock (\<^verbatim>\<open>time.Now()\<close>) and the id generator (\<^verbatim>\<open>uuid.New()\<close>) are read
    through explicit arguments.
\<close>

subsection \<open>Time\<close>

type_synonym time = int
type_synonym Duration = "64 word"

definition Nanosecond :: Duration where "Nanosecond = 1"
definition Second :: Duration where "Second = 1000000000 * Nanosecond"
definition Minute :: Duration where "Minute = 60 * Second"
definition Hour :: Duration where "Hour = 60 * Minute"

text \<open>\<^verbatim>\<open>t.Add(d)\<close>, \<^verbatim>\<open>t.Before(u)\<close> and \<^verbatim>\<open>t.After(u)\<close> on instants.\<close>

definition Add :: "time \<Rightarrow> Duration \<Rightarrow> time" where
  "Add t d = t + sint d"

definition Before :: "time \<Rightarrow> time \<Rightarrow> bool" where
  "Before t u = (t < u)"

definition After :: "time \<Rightarrow> time \<Rightarrow> bool" where
  "After t u = (t > u)"

text \<open>
  \<^verbatim>\<open>time.Date(date.Year(), date.Month(), date.Day(), hour, 0, 0, 0, date.Location())\<close>
  for a date in UTC: the midnight that starts the day of \<open>date\<close>, plus \<open>hour\<close> hours.
\<close>

definition nsPerDay :: int where
  "nsPerDay = 86400 * 1000000000"

definition Date :: "time \<Rightarrow> int \<Rightarrow> time" where
  "Date date hour = date - date mod nsPerDay + hour * 3600000000000"

text \<open>\<^verbatim>\<open>fmt.Sprintf("%d", n)\<close>.\<close>

fun digitsOf :: "nat \<Rightarrow> string" where
  "digitsOf n = (if n < 10 then [char_of (48 + n)]
                 else digitsOf (n div 10) @ [char_of (48 + n mod 10)])"

declare digitsOf.simps [simp del]

definition Sprintf_d :: "int \<Rightarrow> string" where
  "Sprintf_d n = (if n < 0 then ''-'' @ digitsOf (nat (- n)) else digitsOf (nat n))"

subsection \<open>Models\<close>

type_synonym uuid = nat

definition Nil_uuid :: uuid where "Nil_uuid = 0"

record BaseModel =
  ID :: uuid
  CreatedAt :: time
  UpdatedAt :: time

record AuditableModel = BaseModel +
  CreatedBy :: uuid
  UpdatedBy :: uuid

type_synonym AppointmentType = string
type_synonym AppointmentStatus = string

definition AppointmentStatusScheduled :: AppointmentStatus where
  "AppointmentStatusScheduled = ''scheduled''"
definition AppointmentStatusConfirmed :: AppointmentStatus where
  "AppointmentStatusConfirmed = ''confirmed''"
definition AppointmentStatusCheckedIn :: AppointmentStatus where
  "AppointmentStatusCheckedIn = ''checked_in''"
definition AppointmentStatusInProgress :: AppointmentStatus where
  "AppointmentStatusInProgress = ''in_progress''"
definition AppointmentStatusCompleted :: AppointmentStatus where
  "AppointmentStatusCompleted = ''completed''"
definition AppointmentStatusCancelled :: AppointmentStatus where
  "AppointmentStatusCancelled = ''cancelled''"
definition AppointmentStatusNoShow :: AppointmentStatus where
  "AppointmentStatusNoShow = ''no_show''"

record Appointment = AuditableModel +
  AppointmentNumber :: string
  PatientID :: uuid
  ProviderID :: uuid
  AppointmentType :: AppointmentType
  Status :: AppointmentStatus
  StartTime :: time
  EndTime :: time
  Duration :: "64 word"
  Department :: string
  Location :: string
  Room :: string
  ReasonForVisit :: string
  Notes :: string
  ReminderSent :: bool
  ReminderSentAt :: "time option"
  CheckedInAt :: "time option"
  CancelledAt :: "time option"
  CancellationReason :: string

type_synonym EncounterType = string
type_synonym EncounterStatus = string
type_synonym Priority = string

definition EncounterStatusScheduled :: EncounterStatus where
  "EncounterStatusScheduled = ''scheduled''"
definition EncounterStatusInProgress :: EncounterStatus where
  "EncounterStatusInProgress = ''in_progress''"
definition EncounterStatusCompleted :: EncounterStatus where
  "EncounterStatusCompleted = ''completed''"
definition EncounterStatusCancelled :: EncounterStatus where
  "EncounterStatusCancelled = ''cancelled''"

record Encounter = AuditableModel +
  EncounterNumber :: string
  EncPatientID :: uuid
  EncProviderID :: uuid
  EncounterType :: EncounterType
  EncStatus :: EncounterStatus
  Priority :: Priority
  EncDepartment :: string
  EncLocation :: string
  AdmissionDate :: time
  DischargeDate :: "time option"
  ChiefComplaint :: string
  EncReasonForVisit :: string

text \<open>
  The fields \<^verbatim>\<open>PatientID\<close>, \<^verbatim>\<open>ProviderID\<close>, \<^verbatim>\<open>Status\<close>, \<^verbatim>\<open>Department\<close>,
  \<^verbatim>\<open>Location\<close> and \<^verbatim>\<open>ReasonForVisit\<close> of \<^verbatim>\<open>models.Encounter\<close> carry the prefix
  \<open>Enc\<close>, and the fields of \<^verbatim>\<open>scheduling.TimeSlot\<close> the prefix \<open>Slot\<close>: the names are
  taken by the fields of \<^verbatim>\<open>models.Appointment\<close>.
\<close>

record TimeSlot =
  SlotStartTime :: time
  SlotEndTime :: time
  Available :: bool

record CreateAppointmentRequest =
  ReqPatientID :: uuid
  ReqProviderID :: uuid
  ReqAppointmentType :: AppointmentType
  ReqStartTime :: time
  ReqDuration :: "64 word"
  ReqDepartment :: string
  ReqLocation :: string
  ReqRoom :: string
  ReqReasonForVisit :: string
  ReqNotes :: string

subsection \<open>Errors\<close>

text \<open>The \<^verbatim>\<open>*errors.AppError\<close> values the services return, by constructor.\<close>

datatype AppError =
    ErrDatabaseError
  | ErrPatientNotFound uuid
  | ErrUserNotFound uuid
  | ErrEncounterNotFound uuid
  | ErrAppointmentNotFound uuid
  | ErrAppointmentConflict

text \<open>The \<^verbatim>\<open>Code\<close> field that \<^verbatim>\<open>NewAppError\<close> stores for each of them.\<close>

fun Code :: "AppError \<Rightarrow> string" where
  "Code ErrDatabaseError = ''DATABASE_ERROR''"
| "Code (ErrPatientNotFound _) = ''PATIENT_NOT_FOUND''"
| "Code (ErrUserNotFound _) = ''USER_NOT_FOUND''"
| "Code (ErrEncounterNotFound _) = ''ENCOUNTER_NOT_FOUND''"
| "Code (ErrAppointmentNotFound _) = ''APPOINTMENT_NOT_FOUND''"
| "Code ErrAppointmentConflict = ''APPOINTMENT_CONFLICT''"

subsection \<open>Messaging\<close>

datatype val = VUUID uuid | VString string | VTime time

type_synonym payload = "(string \<times> val) list"

text \<open>
  \<^verbatim>\<open>*messaging.NATSClient\<close>: \<open>None\<close> is the nil client (or one without a connection),
  \<open>Some log\<close> a connected client with the messages it has published so far.
\<close>

type_synonym NATSClient = "(string \<times> payload) list option"

definition SubjectEncounterCreated :: string where
  "SubjectEncounterCreated = ''encounter.created''"
definition SubjectEncounterUpdated :: string where
  "SubjectEncounterUpdated = ''encounter.updated''"
definition SubjectAppointmentBooked :: string where
  "SubjectAppointmentBooked = ''appointment.booked''"
definition SubjectAppointmentCancelled :: string where
  "SubjectAppointmentCancelled = ''appointment.cancelled''"

definition Publish :: "NATSClient \<Rightarrow> string \<Rightarrow> payload \<Rightarrow> NATSClient" where
  "Publish c subject data =
     (case c of
        None \<Rightarrow> None
      | Some log \<Rightarrow> Some (log @ [(subject, data)]))"

subsection \<open>The store and the services\<close>

record DB =
  patients :: "uuid list"
  users :: "uuid list"
  appointments :: "Appointment list"
  encounters :: "Encounter list"

record Service =
  db :: DB
  natsClient :: NATSClient

text \<open>The hooks \<^verbatim>\<open>BeforeCreate\<close> and \<^verbatim>\<open>BeforeUpdate\<close> of \<^verbatim>\<open>BaseModel\<close>.\<close>

definition BeforeCreate :: "uuid \<Rightarrow> time \<Rightarrow> ('a BaseModel_scheme) \<Rightarrow> ('a BaseModel_scheme)" where
  "BeforeCreate newID now base =
     (let base1 = (if ID base = Nil_uuid then base\<lparr>ID := newID\<rparr> else base)
      in base1\<lparr>CreatedAt := now, UpdatedAt := now\<rparr>)"

definition BeforeUpdate :: "time \<Rightarrow> ('a BaseModel_scheme) \<Rightarrow> ('a BaseModel_scheme)" where
  "BeforeUpdate now base = base\<lparr>UpdatedAt := now\<rparr>"

text \<open>
  \<^verbatim>\<open>db.Where("id = ?", id).First(&row)\<close>: the row with that primary key, or
  \<^verbatim>\<open>gorm.ErrRecordNotFound\<close> (\<open>None\<close>).
\<close>

definition First :: "('a BaseModel_scheme) list \<Rightarrow> uuid \<Rightarrow> ('a BaseModel_scheme) option" where
  "First rows id' = find (\<lambda>r. ID r = id') rows"

text \<open>
  \<^verbatim>\<open>db.Save(&row)\<close> of a row that has a primary key: after the \<^verbatim>\<open>BeforeUpdate\<close>
  hook, every column of the stored row with that key is overwritten. The result is the
  row as saved and the new table.
\<close>

definition Save :: "time \<Rightarrow> ('a BaseModel_scheme) list \<Rightarrow> ('a BaseModel_scheme)
    \<Rightarrow> ('a BaseModel_scheme) \<times> ('a BaseModel_scheme) list" where
  "Save now rows row =
     (let row1 = BeforeUpdate now row
      in (row1, map (\<lambda>r. if ID r = ID row1 then row1 else r) rows))"

text \<open>
  \<^verbatim>\<open>db.Create(appointment)\<close>: after the \<^verbatim>\<open>BeforeCreate\<close> hook the row is appended,
  unless its primary key or its \<^verbatim>\<open>appointment_number\<close> (a unique index) is taken.
\<close>

definition CreateAppointmentRow :: "uuid \<Rightarrow> time \<Rightarrow> Appointment list \<Rightarrow> Appointment
    \<Rightarrow> (Appointment \<times> Appointment list) option" where
  "CreateAppointmentRow newID now rows row =
     (let row1 = BeforeCreate newID now row
      in if list_ex (\<lambda>r. ID r = ID row1 \<or> AppointmentNumber r = AppointmentNumber row1) rows
         then None
         else Some (row1, rows @ [row1]))"

subsection \<open>Package scheduling\<close>

text \<open>
  The \<^verbatim>\<open>Count\<close> query of \<^verbatim>\<open>isProviderAvailable\<close>:
  \<^verbatim>\<open>provider_id = ? AND status NOT IN ? AND start_time < ? AND end_time > ?\<close>
  with the arguments provider, \<^verbatim>\<open>["cancelled"]\<close>, \<open>endTime\<close>, \<open>startTime\<close>.
\<close>

definition isProviderAvailable :: "Service \<Rightarrow> uuid \<Rightarrow> time \<Rightarrow> time \<Rightarrow> bool" where
  "isProviderAvailable s providerID startTime endTime =
     (let count = length (filter (\<lambda>a. ProviderID a = providerID
                                      \<and> Status a \<notin> set [AppointmentStatusCancelled]
                                      \<and> StartTime a < endTime
                                      \<and> EndTime a > startTime)
                           (appointments (db s)))
      in count = 0)"

definition isProviderAvailableExcept :: "Service \<Rightarrow> uuid \<Rightarrow> time \<Rightarrow> time \<Rightarrow> uuid \<Rightarrow> bool" where
  "isProviderAvailableExcept s providerID startTime endTime exceptID =
     (let count = length (filter (\<lambda>a. ProviderID a = providerID
                                      \<and> ID a \<noteq> exceptID
                                      \<and> Status a \<notin> set [AppointmentStatusCancelled]
                                      \<and> StartTime a < endTime
                                      \<and> EndTime a > startTime)
                           (appointments (db s)))
      in count = 0)"

text \<open>\<^verbatim>\<open>fmt.Sprintf("APT%d", time.Now().UnixNano()%1000000000)\<close>; Go's \<^verbatim>\<open>%\<close> truncates.\<close>

definition generateAppointmentNumber :: "time \<Rightarrow> string" where
  "generateAppointmentNumber now = ''APT'' @ Sprintf_d (now smod 1000000000)"

text \<open>
  \<^verbatim>\<open>CreateAppointment\<close>. Beyond the request and the caller's id it reads the clock in
  \<^verbatim>\<open>generateAppointmentNumber\<close> (\<open>numberNow\<close>), and the id generator and the clock in the
  \<^verbatim>\<open>BeforeCreate\<close> hook (\<open>newID\<close>, \<open>hookNow\<close>).
\<close>

definition CreateAppointment :: "Service \<Rightarrow> CreateAppointmentRequest \<Rightarrow> uuid
    \<Rightarrow> time \<Rightarrow> uuid \<Rightarrow> time \<Rightarrow> AppError + (Appointment \<times> Service)" where
  "CreateAppointment s req createdBy numberNow newID hookNow =
     (if ReqPatientID req \<notin> set (patients (db s)) then Inl (ErrPatientNotFound (ReqPatientID req))
      else if ReqProviderID req \<notin> set (users (db s)) then Inl (ErrUserNotFound (ReqProviderID req))
      else
        let endTime = Add (ReqStartTime req) (ReqDuration req * Minute) in
        if \<not> isProviderAvailable s (ReqProviderID req) (ReqStartTime req) endTime
        then Inl ErrAppointmentConflict
        else
          let appointmentNumber = generateAppointmentNumber numberNow;
              appointment = \<lparr>ID = Nil_uuid, CreatedAt = 0, UpdatedAt = 0,
                CreatedBy = createdBy, UpdatedBy = createdBy,
                AppointmentNumber = appointmentNumber,
                PatientID = ReqPatientID req,
                ProviderID = ReqProviderID req,
                AppointmentType = ReqAppointmentType req,
                Status = AppointmentStatusScheduled,
                StartTime = ReqStartTime req,
                EndTime = endTime,
                Duration = ReqDuration req,
                Department = ReqDepartment req,
                Location = ReqLocation req,
                Room = ReqRoom req,
                ReasonForVisit = ReqReasonForVisit req,
                Notes = ReqNotes req,
                ReminderSent = False, ReminderSentAt = None, CheckedInAt = None,
                CancelledAt = None, CancellationReason = []\<rparr>
          in case CreateAppointmentRow newID hookNow (appointments (db s)) appointment of
               None \<Rightarrow> Inl ErrDatabaseError
             | Some (created, rows) \<Rightarrow>
                 Inr (created,
                      s\<lparr>db := (db s)\<lparr>appointments := rows\<rparr>,
                        natsClient := Publish (natsClient s) SubjectAppointmentBooked
                          [(''appointment_id'', VUUID (ID created)),
                           (''appointment_number'', VString (AppointmentNumber created)),
                           (''patient_id'', VUUID (PatientID created)),
                           (''provider_id'', VUUID (ProviderID created)),
                           (''start_time'', VTime (StartTime created)),
                           (''created_by'', VUUID createdBy)]\<rparr>))"

text \<open>\<^verbatim>\<open>UpdateAppointment\<close>; \<open>hookNow\<close> is the clock of the \<^verbatim>\<open>BeforeUpdate\<close> hook.\<close>

definition UpdateAppointment :: "Service \<Rightarrow> uuid \<Rightarrow> CreateAppointmentRequest \<Rightarrow> uuid
    \<Rightarrow> time \<Rightarrow> AppError + (Appointment \<times> Service)" where
  "UpdateAppointment s id' req updatedBy hookNow =
     (case First (appointments (db s)) id' of
        None \<Rightarrow> Inl (ErrAppointmentNotFound id')
      | Some appointment \<Rightarrow>
          let endTime = Add (ReqStartTime req) (ReqDuration req * Minute) in
          if \<not> isProviderAvailableExcept s (ReqProviderID req) (ReqStartTime req) endTime id'
          then Inl ErrAppointmentConflict
          else
            let appointment1 = appointment\<lparr>
                  PatientID := ReqPatientID req,
                  ProviderID := ReqProviderID req,
                  AppointmentType := ReqAppointmentType req,
                  StartTime := ReqStartTime req,
                  EndTime := endTime,
                  Duration := ReqDuration req,
                  Department := ReqDepartment req,
                  Location := ReqLocation req,
                  Room := ReqRoom req,
                  ReasonForVisit := ReqReasonForVisit req,
                  Notes := ReqNotes req,
                  UpdatedBy := updatedBy\<rparr>;
                (saved, rows) = Save hookNow (appointments (db s)) appointment1
            in Inr (saved, s\<lparr>db := (db s)\<lparr>appointments := rows\<rparr>\<rparr>))"

text \<open>
  \<^verbatim>\<open>CancelAppointment\<close>; \<open>now\<close> is its own reading of the clock, \<open>hookNow\<close> that of
  the \<^verbatim>\<open>BeforeUpdate\<close> hook. The result is the error, or the service after the call.
\<close>

definition CancelAppointment :: "Service \<Rightarrow> uuid \<Rightarrow> string \<Rightarrow> uuid
    \<Rightarrow> time \<Rightarrow> time \<Rightarrow> AppError + Service" where
  "CancelAppointment s id' reason cancelledBy now hookNow =
     (case First (appointments (db s)) id' of
        None \<Rightarrow> Inl (ErrAppointmentNotFound id')
      | Some appointment \<Rightarrow>
          let appointment1 = appointment\<lparr>
                Status := AppointmentStatusCancelled,
                CancelledAt := Some now,
                CancellationReason := reason,
                UpdatedBy := cancelledBy\<rparr>;
              (saved, rows) = Save hookNow (appointments (db s)) appointment1
          in Inr (s\<lparr>db := (db s)\<lparr>appointments := rows\<rparr>,
                    natsClient := Publish (natsClient s) SubjectAppointmentCancelled
                      [(''appointment_id'', VUUID (ID saved)),
                       (''patient_id'', VUUID (PatientID saved)),
                       (''provider_id'', VUUID (ProviderID saved)),
                       (''reason'', VString reason),
                       (''cancelled_by'', VUUID cancelledBy)]\<rparr>))"

text \<open>\<^verbatim>\<open>CheckInAppointment\<close>.\<close>

definition CheckInAppointment :: "Service \<Rightarrow> uuid \<Rightarrow> time \<Rightarrow> time \<Rightarrow> AppError + Service" where
  "CheckInAppointment s id' now hookNow =
     (case First (appointments (db s)) id' of
        None \<Rightarrow> Inl (ErrAppointmentNotFound id')
      | Some appointment \<Rightarrow>
          let appointment1 = appointment\<lparr>
                Status := AppointmentStatusCheckedIn,
                CheckedInAt := Some now\<rparr>;
              (saved, rows) = Save hookNow (appointments (db s)) appointment1
          in Inr (s\<lparr>db := (db s)\<lparr>appointments := rows\<rparr>\<rparr>))"

text \<open>
  \<^verbatim>\<open>GetProviderAvailability\<close>. The inner loop over the fetched appointments leaves
  at the first appointment that the slot intersects.
\<close>

fun slotIsAvailable :: "Appointment list \<Rightarrow> time \<Rightarrow> time \<Rightarrow> bool" where
  "slotIsAvailable [] currentSlot slotEnd = True"
| "slotIsAvailable (appt # rest) currentSlot slotEnd =
     (if Before currentSlot (EndTime appt) \<and> After slotEnd (StartTime appt) then False
      else slotIsAvailable rest currentSlot slotEnd)"

definition slotDuration :: Duration where
  "slotDuration = 30 * Minute"

text \<open>The outer loop \<^verbatim>\<open>for currentSlot.Before(workEnd) { ... }\<close>.\<close>

function slotLoop :: "Appointment list \<Rightarrow> time \<Rightarrow> time \<Rightarrow> TimeSlot list \<Rightarrow> TimeSlot list" where
  "slotLoop appts currentSlot workEnd availableSlots =
     (if Before currentSlot workEnd then
        let slotEnd = Add currentSlot slotDuration;
            isAvailable = slotIsAvailable appts currentSlot slotEnd
        in slotLoop appts slotEnd workEnd
             (availableSlots @ [\<lparr>SlotStartTime = currentSlot, SlotEndTime = slotEnd,
                                  Available = isAvailable\<rparr>])
      else availableSlots)"
  by pat_completeness auto
termination
  by (relation "measure (\<lambda>(appts, currentSlot, workEnd, availableSlots). nat (workEnd - currentSlot))")
     (auto simp: Before_def Add_def slotDuration_def Minute_def Second_def Nanosecond_def)

declare slotLoop.simps [simp del]

text \<open>
  The query for the appointments of the day:
  \<^verbatim>\<open>provider_id = ? AND start_time >= ? AND start_time < ? AND status NOT IN ?\<close>,
  ordered by \<^verbatim>\<open>start_time ASC\<close>.
\<close>

definition appointmentsOfDay :: "Service \<Rightarrow> uuid \<Rightarrow> time \<Rightarrow> time \<Rightarrow> Appointment list" where
  "appointmentsOfDay s providerID startOfDay endOfDay =
     sort_key StartTime
       (filter (\<lambda>a. ProviderID a = providerID
                    \<and> StartTime a \<ge> startOfDay
                    \<and> StartTime a < endOfDay
                    \<and> Status a \<notin> set [AppointmentStatusCancelled])
               (appointments (db s)))"

definition GetProviderAvailability :: "Service \<Rightarrow> uuid \<Rightarrow> time \<Rightarrow> AppError + TimeSlot list" where
  "GetProviderAvailability s providerID date =
     (if providerID \<notin> set (users (db s)) then Inl (ErrUserNotFound providerID)
      else
        let startOfDay = Date date 0;
            endOfDay = Add startOfDay (24 * Hour);
            appts = appointmentsOfDay s providerID startOfDay endOfDay;
            workStart = Date date 8;
            workEnd = Date date 17
        in Inr (slotLoop appts workStart workEnd []))"

subsection \<open>Package encounter\<close>

text \<open>
  \<^verbatim>\<open>db.Create(encounter)\<close>; \<^verbatim>\<open>encounter_number\<close> carries a unique index.
\<close>

definition CreateEncounterRow :: "uuid \<Rightarrow> time \<Rightarrow> Encounter list \<Rightarrow> Encounter
    \<Rightarrow> (Encounter \<times> Encounter list) option" where
  "CreateEncounterRow newID now rows row =
     (let row1 = BeforeCreate newID now row
      in if list_ex (\<lambda>r. ID r = ID row1 \<or> EncounterNumber r = EncounterNumber row1) rows
         then None
         else Some (row1, rows @ [row1]))"

record CreateEncounterRequest =
  CReqPatientID :: uuid
  CReqProviderID :: uuid
  CReqEncounterType :: EncounterType
  CReqPriority :: Priority
  CReqDepartment :: string
  CReqLocation :: string
  CReqAdmissionDate :: time
  CReqChiefComplaint :: string
  CReqReasonForVisit :: string

definition generateEncounterNumber :: "time \<Rightarrow> string" where
  "generateEncounterNumber now = ''ENC'' @ Sprintf_d (now smod 1000000000)"

definition CreateEncounter :: "Service \<Rightarrow> CreateEncounterRequest \<Rightarrow> uuid
    \<Rightarrow> time \<Rightarrow> uuid \<Rightarrow> time \<Rightarrow> AppError + (Encounter \<times> Service)" where
  "CreateEncounter s req createdBy numberNow newID hookNow =
     (if CReqPatientID req \<notin> set (patients (db s)) then Inl (ErrPatientNotFound (CReqPatientID req))
      else if CReqProviderID req \<notin> set (users (db s)) then Inl (ErrUserNotFound (CReqProviderID req))
      else
        let encounterNumber = generateEncounterNumber numberNow;
            encounter = \<lparr>ID = Nil_uuid, CreatedAt = 0, UpdatedAt = 0,
              CreatedBy = createdBy, UpdatedBy = createdBy,
              EncounterNumber = encounterNumber,
              EncPatientID = CReqPatientID req,
              EncProviderID = CReqProviderID req,
              EncounterType = CReqEncounterType req,
              EncStatus = EncounterStatusScheduled,
              Priority = CReqPriority req,
              EncDepartment = CReqDepartment req,
              EncLocation = CReqLocation req,
              AdmissionDate = CReqAdmissionDate req,
              DischargeDate = None,
              ChiefComplaint = CReqChiefComplaint req,
              EncReasonForVisit = CReqReasonForVisit req\<rparr>
        in case CreateEncounterRow newID hookNow (encounters (db s)) encounter of
             None \<Rightarrow> Inl ErrDatabaseError
           | Some (created, rows) \<Rightarrow>
               Inr (created,
                    s\<lparr>db := (db s)\<lparr>encounters := rows\<rparr>,
                      natsClient := Publish (natsClient s) SubjectEncounterCreated
                        [(''encounter_id'', VUUID (ID created)),
                         (''encounter_number'', VString (EncounterNumber created)),
                         (''patient_id'', VUUID (EncPatientID created)),
                         (''provider_id'', VUUID (EncProviderID created)),
                         (''created_by'', VUUID createdBy)]\<rparr>))"

text \<open>
  \<^verbatim>\<open>UpdateEncounter\<close>; \<open>now\<close> is the clock read when the encounter is completed,
  \<open>hookNow\<close> the clock of the \<^verbatim>\<open>BeforeUpdate\<close> hook.
\<close>

definition UpdateEncounter :: "Service \<Rightarrow> uuid \<Rightarrow> EncounterStatus \<Rightarrow> uuid
    \<Rightarrow> time \<Rightarrow> time \<Rightarrow> AppError + (Encounter \<times> Service)" where
  "UpdateEncounter s id' status updatedBy now hookNow =
     (case First (encounters (db s)) id' of
        None \<Rightarrow> Inl (ErrEncounterNotFound id')
      | Some encounter \<Rightarrow>
          let encounter1 = encounter\<lparr>EncStatus := status, UpdatedBy := updatedBy\<rparr>;
              encounter2 = (if status = EncounterStatusCompleted
                            then encounter1\<lparr>DischargeDate := Some now\<rparr>
                            else encounter1);
              (saved, rows) = Save hookNow (encounters (db s)) encounter2
          in Inr (saved,
                  s\<lparr>db := (db s)\<lparr>encounters := rows\<rparr>,
                    natsClient := Publish (natsClient s) SubjectEncounterUpdated
                      [(''encounter_id'', VUUID (ID saved)),
                       (''status'', VString (EncStatus saved)),
                       (''updated_by'', VUUID updatedBy)]\<rparr>))"

subsection \<open>Auxiliary definitions and example data\<close>

text \<open>The slot that one pass of the loop body appends for \<open>currentSlot\<close>.\<close>

definition mkSlot :: "Appointment list \<Rightarrow> time \<Rightarrow> TimeSlot" where
  "mkSlot appts currentSlot =
     \<lparr>SlotStartTime = currentSlot, SlotEndTime = currentSlot + 1800000000000,
      Available = slotIsAvailable appts currentSlot (currentSlot + 1800000000000)\<rparr>"

text \<open>
  Example data: the day 2024-01-15 (UTC), a clock time on that day, a service with one
  patient (id 1), one provider (id 2), no rows yet and a connected messaging client, and a
  booking request of that patient with that provider.
\<close>

definition exampleDay :: time where
  "exampleDay = 1705276800000000000"

definition clock :: "int \<Rightarrow> int \<Rightarrow> time" where
  "clock h m = exampleDay + (h * 60 + m) * 60000000000"

definition emptyService :: Service where
  "emptyService =
     \<lparr>db = \<lparr>patients = [1], users = [2], appointments = [], encounters = []\<rparr>,
      natsClient = Some []\<rparr>"

definition booking :: "time \<Rightarrow> 64 word \<Rightarrow> CreateAppointmentRequest" where
  "booking start minutes =
     \<lparr>ReqPatientID = 1, ReqProviderID = 2, ReqAppointmentType = ''consultation'',
      ReqStartTime = start, ReqDuration = minutes, ReqDepartment = ''cardiology'',
      ReqLocation = [], ReqRoom = [], ReqReasonForVisit = [], ReqNotes = []\<rparr>"

text \<open>
  The service after the first booking of the day, made at 07:00 by user 7, for the given
  start and duration. It is \<open>emptyService\<close> again should that booking fail.
\<close>

definition bookedService :: "time \<Rightarrow> 64 word \<Rightarrow> Service" where
  "bookedService start minutes =
     (case CreateAppointment emptyService (booking start minutes) 7 (clock 7 0 + 123456789) 100 (clock 7 0 + 123460000) of
        Inl e \<Rightarrow> emptyService
      | Inr (a, s) \<Rightarrow> s)"

text \<open>The same service with the status of its appointment (id 100) set in the table.\<close>

definition withStatus :: "AppointmentStatus \<Rightarrow> Service \<Rightarrow> Service" where
  "withStatus st s =
     s\<lparr>db := (db s)\<lparr>appointments := map (\<lambda>a. a\<lparr>Status := st\<rparr>) (appointments (db s))\<rparr>\<rparr>"

text \<open>
  The booked service (appointment 09:00 to 09:30) after user 7 has cancelled the
  appointment at 08:00.
\<close>

definition cancelledService :: Service where
  "cancelledService =
     (case CancelAppointment (bookedService (clock 9 0) 30) 100 ''patient request'' 7
             (clock 8 0) (clock 8 0 + 1000) of
        Inl e \<Rightarrow> emptyService
      | Inr s \<Rightarrow> s)"

text \<open>
  An encounter of the patient with the provider, created at 07:00 with admission planned
  for 14:00, and the service that holds it (\<open>emptyService\<close> should the creation fail).
\<close>

definition admission :: CreateEncounterRequest where
  "admission =
     \<lparr>CReqPatientID = 1, CReqProviderID = 2, CReqEncounterType = ''outpatient'',
      CReqPriority = ''routine'', CReqDepartment = ''cardiology'', CReqLocation = [],
      CReqAdmissionDate = clock 14 0, CReqChiefComplaint = [], CReqReasonForVisit = []\<rparr>"

definition admittedService :: Service where
  "admittedService =
     (case CreateEncounter emptyService admission 7 (clock 7 0 + 5) 200 (clock 7 0 + 99) of
        Inl e \<Rightarrow> emptyService
      | Inr (e, s) \<Rightarrow> s)"

text \<open>That service after user 7 has completed the encounter at 15:00.\<close>

definition completedService :: Service where
  "completedService =
     (case UpdateEncounter admittedService 200 EncounterStatusCompleted 7
             (clock 15 0) (clock 15 0 + 1000) of
        Inl e \<Rightarrow> emptyService
      | Inr (e, s) \<Rightarrow> s)"

section \<open>Properties\<close>

subsection \<open>Arithmetic of durations\<close>


lemma sint_slotDuration: "sint slotDuration = 1800000000000"
  by (simp add: slotDuration_def Minute_def Second_def Nanosecond_def)

lemma sint_24_Hour: "sint (24 * Hour) = 86400000000000"
  by (simp add: Hour_def Minute_def Second_def Nanosecond_def)

subsection \<open>The slot generator\<close>

lemma slotIsAvailable_iff:
  "slotIsAvailable appts currentSlot slotEnd =
     (\<not> (\<exists>a\<in>set appts. currentSlot < EndTime a \<and> slotEnd > StartTime a))"
  by (induction appts) (auto simp: Before_def After_def)

text \<open>A window of \<open>n\<close> slot widths makes the loop append \<open>n\<close> slots, one per step.\<close>

lemma slotLoop_steps:
  "slotLoop appts cur (cur + int n * 1800000000000) acc =
     acc @ map (\<lambda>i. mkSlot appts (cur + int i * 1800000000000)) [0..<n]"
proof (induction n arbitrary: cur acc)
  case 0
  show ?case by (simp add: slotLoop.simps [of appts cur] Before_def)
next
  case (Suc n)
  have lt: "cur < cur + int (Suc n) * 1800000000000" by simp
  have e: "cur + int (Suc n) * 1800000000000 = (cur + 1800000000000) + int n * 1800000000000"
    by (simp add: algebra_simps)
  have "slotLoop appts cur (cur + int (Suc n) * 1800000000000) acc =
        slotLoop appts (cur + 1800000000000) ((cur + 1800000000000) + int n * 1800000000000)
          (acc @ [mkSlot appts cur])"
    using lt unfolding e
    by (subst slotLoop.simps) (simp add: Before_def Add_def sint_slotDuration mkSlot_def Let_def)
  also have "\<dots> = (acc @ [mkSlot appts cur]) @
      map (\<lambda>i. mkSlot appts ((cur + 1800000000000) + int i * 1800000000000)) [0..<n]"
    by (rule Suc.IH)
  also have "\<dots> = acc @ map (\<lambda>i. mkSlot appts (cur + int i * 1800000000000)) [0..<Suc n]"
    by (simp add: map_upt_Suc algebra_simps del: upt_Suc)
  finally show ?case .
qed

lemma Date_17: "Date date 17 = Date date 8 + int 18 * 1800000000000"
  by (simp add: Date_def)

lemma GetProviderAvailability_eq:
  "providerID \<in> set (users (db s)) \<Longrightarrow>
   GetProviderAvailability s providerID date =
     Inr (map (\<lambda>i. mkSlot (appointmentsOfDay s providerID (Date date 0) (Date date 0 + 86400000000000))
                 (Date date 8 + int i * 1800000000000)) [0..<18])"
  unfolding GetProviderAvailability_def Let_def Date_17 slotLoop_steps
  by (simp add: Add_def sint_24_Hour)

subsection \<open>The example data, evaluated\<close>

lemmas status_defs =
  AppointmentStatusScheduled_def AppointmentStatusConfirmed_def AppointmentStatusCheckedIn_def
  AppointmentStatusInProgress_def AppointmentStatusCompleted_def AppointmentStatusCancelled_def
  AppointmentStatusNoShow_def

lemmas number_defs =
  generateAppointmentNumber_def generateEncounterNumber_def signed_modulo_int_def Sprintf_d_def
  digitsOf.simps char_of_def bit_Suc_0_iff

lemma clock_eq: "clock h m = 1705276800000000000 + (h * 60 + m) * 60000000000"
  by (simp add: clock_def exampleDay_def)

lemma bookedService_eq:
  "bookedService start minutes =
     \<lparr>db = \<lparr>patients = [1], users = [2],
        appointments = [\<lparr>ID = 100, CreatedAt = clock 7 0 + 123460000, UpdatedAt = clock 7 0 + 123460000,
           CreatedBy = 7, UpdatedBy = 7,
           AppointmentNumber = generateAppointmentNumber (clock 7 0 + 123456789),
           PatientID = 1, ProviderID = 2, AppointmentType = ''consultation'',
           Status = AppointmentStatusScheduled, StartTime = start,
           EndTime = Add start (minutes * Minute), Duration = minutes,
           Department = ''cardiology'', Location = [], Room = [], ReasonForVisit = [], Notes = [],
           ReminderSent = False, ReminderSentAt = None, CheckedInAt = None, CancelledAt = None,
           CancellationReason = []\<rparr>],
        encounters = []\<rparr>,
      natsClient = Some [(SubjectAppointmentBooked,
          [(''appointment_id'', VUUID 100),
           (''appointment_number'', VString (generateAppointmentNumber (clock 7 0 + 123456789))),
           (''patient_id'', VUUID 1), (''provider_id'', VUUID 2),
           (''start_time'', VTime start), (''created_by'', VUUID 7)])]\<rparr>"
  by (simp add: bookedService_def CreateAppointment_def emptyService_def booking_def
      isProviderAvailable_def CreateAppointmentRow_def BeforeCreate_def Nil_uuid_def Publish_def Let_def)

subsection \<open>The booking conflict guard\<close>

lemma isProviderAvailable_iff:
  "(\<not> isProviderAvailable s p newStart newEnd) =
     (\<exists>a\<in>set (appointments (db s)).
        ProviderID a = p \<and> Status a \<noteq> AppointmentStatusCancelled
        \<and> StartTime a < newEnd \<and> EndTime a > newStart)"
  by (auto simp: isProviderAvailable_def filter_empty_conv)

lemma isProviderAvailableExcept_iff:
  "(\<not> isProviderAvailableExcept s p newStart newEnd exceptID) =
     (\<exists>a\<in>set (appointments (db s)).
        ProviderID a = p \<and> ID a \<noteq> exceptID \<and> Status a \<noteq> AppointmentStatusCancelled
        \<and> StartTime a < newEnd \<and> EndTime a > newStart)"
  by (auto simp: isProviderAvailableExcept_def filter_empty_conv)

lemma CreateAppointment_conflict_iff:
  "(CreateAppointment s req createdBy numberNow newID hookNow = Inl ErrAppointmentConflict) =
     (ReqPatientID req \<in> set (patients (db s)) \<and> ReqProviderID req \<in> set (users (db s))
      \<and> \<not> isProviderAvailable s (ReqProviderID req) (ReqStartTime req)
            (Add (ReqStartTime req) (ReqDuration req * Minute)))"
  by (auto simp: CreateAppointment_def Let_def split: option.splits)

lemma UpdateAppointment_conflict_iff:
  "(UpdateAppointment s id' req updatedBy hookNow = Inl ErrAppointmentConflict) =
     (First (appointments (db s)) id' \<noteq> None
      \<and> \<not> isProviderAvailableExcept s (ReqProviderID req) (ReqStartTime req)
            (Add (ReqStartTime req) (ReqDuration req * Minute)) id')"
  by (auto simp: UpdateAppointment_def Let_def split: option.splits prod.splits)

lemma scenario_overlap_rejected:
  "CreateAppointment (bookedService (clock 9 0) 30) (booking (clock 9 15) 30)
     createdBy numberNow newID hookNow = Inl ErrAppointmentConflict"
  by (simp add: CreateAppointment_def bookedService_eq booking_def isProviderAvailable_iff
       Add_def clock_eq status_defs Minute_def Second_def Nanosecond_def)

lemma scenario_back_to_back_admitted:
  "\<not> isl (CreateAppointment (bookedService (clock 9 0) 30) (booking (clock 9 30) 30)
            7 (clock 7 5 + 5) 101 (clock 7 5 + 99))"
  by (simp add: CreateAppointment_def bookedService_eq booking_def isProviderAvailable_iff
       Add_def number_defs CreateAppointmentRow_def BeforeCreate_def Nil_uuid_def Let_def
       clock_eq status_defs Minute_def Second_def Nanosecond_def)

text \<open>
  Claim C1. The guard rejects a proposed interval exactly when some appointment of the
  same provider that is not cancelled (and, in the variant used by updates, is not the
  excluded appointment) satisfies \<open>existing.start < newEnd\<close> and
  \<open>existing.end > newStart\<close>; \<^verbatim>\<open>CreateAppointment\<close> and \<^verbatim>\<open>UpdateAppointment\<close> answer
  with the conflict error exactly when their lookups succeed and the guard rejects. With
  a booking of the provider from 09:00 to 09:30 in the table, booking 09:15 to 09:45 is
  answered with the conflict error, whereas 09:30 to 10:00 passes the guard and is booked.
\<close>

theorem booking_conflict_guard:
  "((\<not> isProviderAvailable s p newStart newEnd) =
      (\<exists>a\<in>set (appointments (db s)).
         ProviderID a = p \<and> Status a \<noteq> AppointmentStatusCancelled
         \<and> StartTime a < newEnd \<and> EndTime a > newStart))
   \<and> ((\<not> isProviderAvailableExcept s p newStart newEnd exceptID) =
      (\<exists>a\<in>set (appointments (db s)).
         ProviderID a = p \<and> ID a \<noteq> exceptID \<and> Status a \<noteq> AppointmentStatusCancelled
         \<and> StartTime a < newEnd \<and> EndTime a > newStart))
   \<and> ((CreateAppointment s req createdBy numberNow newID hookNow = Inl ErrAppointmentConflict) =
      (ReqPatientID req \<in> set (patients (db s)) \<and> ReqProviderID req \<in> set (users (db s))
       \<and> \<not> isProviderAvailable s (ReqProviderID req) (ReqStartTime req)
             (Add (ReqStartTime req) (ReqDuration req * Minute))))
   \<and> ((UpdateAppointment s id' req updatedBy hookNow = Inl ErrAppointmentConflict) =
      (First (appointments (db s)) id' \<noteq> None
       \<and> \<not> isProviderAvailableExcept s (ReqProviderID req) (ReqStartTime req)
             (Add (ReqStartTime req) (ReqDuration req * Minute)) id'))
   \<and> CreateAppointment (bookedService (clock 9 0) 30) (booking (clock 9 15) 30)
        createdBy numberNow newID hookNow = Inl ErrAppointmentConflict
   \<and> isProviderAvailable (bookedService (clock 9 0) 30) 2 (clock 9 30) (clock 10 0)
   \<and> \<not> isl (CreateAppointment (bookedService (clock 9 0) 30) (booking (clock 9 30) 30)
              7 (clock 7 5 + 5) 101 (clock 7 5 + 99))"
proof -
  have "isProviderAvailable (bookedService (clock 9 0) 30) 2 (clock 9 30) (clock 10 0)"
    using isProviderAvailable_iff [of "bookedService (clock 9 0) 30" 2 "clock 9 30" "clock 10 0"]
    by (simp add: bookedService_eq Add_def clock_eq Minute_def Second_def Nanosecond_def)
  then show ?thesis
    using isProviderAvailable_iff [of s p newStart newEnd]
      isProviderAvailableExcept_iff [of s p newStart newEnd exceptID]
      CreateAppointment_conflict_iff [of s req createdBy numberNow newID hookNow]
      UpdateAppointment_conflict_iff [of s id' req updatedBy hookNow]
      scenario_overlap_rejected [of createdBy numberNow newID hookNow]
      scenario_back_to_back_admitted
    by blast
qed

theorem booking_conflict_guard_witness:
  "\<not> isProviderAvailable (bookedService (clock 9 0) 30) 2 (clock 9 15) (clock 9 45)
   \<and> isProviderAvailableExcept (bookedService (clock 9 0) 30) 2 (clock 9 15) (clock 9 45) 100"
  using booking_conflict_guard [of "bookedService (clock 9 0) 30" 2 "clock 9 15" "clock 9 45" 100]
  by (simp add: bookedService_eq Add_def clock_eq status_defs Minute_def Second_def Nanosecond_def)

subsection \<open>The availability calculator\<close>

lemma mkSlot_sel [simp]:
  "SlotStartTime (mkSlot appts t) = t"
  "SlotEndTime (mkSlot appts t) = t + 1800000000000"
  "Available (mkSlot appts t) = slotIsAvailable appts t (t + 1800000000000)"
  by (simp_all add: mkSlot_def)

lemma set_appointmentsOfDay:
  "set (appointmentsOfDay s p d0 d1) =
     {a \<in> set (appointments (db s)). ProviderID a = p \<and> d0 \<le> StartTime a \<and> StartTime a < d1
        \<and> Status a \<noteq> AppointmentStatusCancelled}"
  by (auto simp: appointmentsOfDay_def)

lemma upt_18: "[0..<18] = [0,1,2,3,4,5,6,7,8,9,10,11,12,13,14,15,16,17]"
  by (simp add: upt_rec)

lemma booked_provider: "2 \<in> set (users (db (bookedService start minutes)))"
  by (simp add: bookedService_eq)

lemma scenario_one_booking:
  "map Available (projr (GetProviderAvailability (bookedService (clock 10 0) 30) 2 exampleDay))
     = replicate 4 True @ [False] @ replicate 13 True"
proof -
  have d0: "Date exampleDay 0 = 1705276800000000000" "Date exampleDay 8 = 1705305600000000000"
    by (simp_all add: Date_def exampleDay_def nsPerDay_def)
  have a: "appointmentsOfDay (bookedService (clock 10 0) 30) 2 1705276800000000000
             (1705276800000000000 + 86400000000000)
     = appointments (db (bookedService (clock 10 0) 30))"
    by (simp add: appointmentsOfDay_def bookedService_eq clock_eq status_defs)
  have r: "replicate 4 True @ [False] @ replicate 13 True =
     [True, True, True, True, False, True, True, True, True, True, True, True, True, True,
      True, True, True, True]"
    by (simp add: eval_nat_numeral)
  show ?thesis
    unfolding GetProviderAvailability_eq [OF booked_provider] r d0 a upt_18
    by (simp add: bookedService_eq clock_eq Add_def Minute_def Second_def Nanosecond_def
          Before_def After_def)
qed

text \<open>
  Claim C3. For a provider that exists and any date, \<^verbatim>\<open>GetProviderAvailability\<close>
  returns exactly 18 slots; slot \<open>i\<close> starts \<open>i\<close> half hours after 08:00 of the day and
  ends half an hour later, so the first slot starts at 08:00, the last one ends at 17:00,
  each slot ends where the next one starts, the start times ascend and no two slots
  overlap. (1800000000000 ns are 30 minutes.)
\<close>

theorem GetProviderAvailability_partition:
  assumes "providerID \<in> set (users (db s))"
  shows "\<exists>slots. GetProviderAvailability s providerID date = Inr slots
     \<and> length slots = 18
     \<and> (\<forall>i<18. SlotStartTime (slots ! i) = Date date 8 + int i * 1800000000000
              \<and> SlotEndTime (slots ! i) = SlotStartTime (slots ! i) + 1800000000000)
     \<and> SlotStartTime (hd slots) = Date date 8
     \<and> SlotEndTime (last slots) = Date date 17
     \<and> (\<forall>i. Suc i < length slots \<longrightarrow> SlotEndTime (slots ! i) = SlotStartTime (slots ! Suc i))
     \<and> sorted_wrt (\<lambda>a b. SlotStartTime a < SlotStartTime b) slots
     \<and> sorted_wrt (\<lambda>a b. SlotEndTime a \<le> SlotStartTime b) slots"
proof -
  define appts where
    "appts = appointmentsOfDay s providerID (Date date 0) (Date date 0 + 86400000000000)"
  define slots where
    "slots = map (\<lambda>i. mkSlot appts (Date date 8 + int i * 1800000000000)) [0..<18]"
  have res: "GetProviderAvailability s providerID date = Inr slots"
    unfolding slots_def appts_def by (rule GetProviderAvailability_eq [OF assms])
  have len: "length slots = 18" by (simp add: slots_def)
  have nth: "slots ! i = mkSlot appts (Date date 8 + int i * 1800000000000)" if "i < 18" for i
    using that unfolding slots_def by (simp del: upt_Suc)
  have ne: "slots \<noteq> []" using len by auto
  have starts: "\<forall>i<18. SlotStartTime (slots ! i) = Date date 8 + int i * 1800000000000
              \<and> SlotEndTime (slots ! i) = SlotStartTime (slots ! i) + 1800000000000"
    by (simp add: nth)
  have first: "SlotStartTime (hd slots) = Date date 8"
    using ne by (simp add: hd_conv_nth nth)
  have final: "SlotEndTime (last slots) = Date date 17"
    using ne by (simp add: last_conv_nth len nth Date_def)
  have contiguous:
    "\<forall>i. Suc i < length slots \<longrightarrow> SlotEndTime (slots ! i) = SlotStartTime (slots ! Suc i)"
    by (simp add: len nth algebra_simps)
  have asc: "sorted_wrt (\<lambda>a b. SlotStartTime a < SlotStartTime b) slots"
    unfolding sorted_wrt_iff_nth_less by (simp add: len nth)
  have disj: "sorted_wrt (\<lambda>a b. SlotEndTime a \<le> SlotStartTime b) slots"
    unfolding sorted_wrt_iff_nth_less
  proof (intro allI impI)
    fix i j assume "i < j" "j < length slots"
    then have "i < 18" "j < 18" "int i + 1 \<le> int j" by (simp_all add: len)
    then show "SlotEndTime (slots ! i) \<le> SlotStartTime (slots ! j)"
      by (simp add: nth)
  qed
  from res len starts first final contiguous asc disj show ?thesis by blast
qed

theorem GetProviderAvailability_partition_witness:
  "2 \<in> set (users (db (bookedService (clock 10 0) 30)))
   \<and> (\<exists>slots. GetProviderAvailability (bookedService (clock 10 0) 30) 2 exampleDay = Inr slots
        \<and> length slots = 18
        \<and> SlotStartTime (hd slots) = clock 8 0
        \<and> SlotEndTime (last slots) = clock 17 0)"
proof -
  have h: "2 \<in> set (users (db (bookedService (clock 10 0) 30)))"
    by (rule booked_provider)
  have d: "Date exampleDay 8 = clock 8 0" "Date exampleDay 17 = clock 17 0"
    by (simp_all add: Date_def exampleDay_def nsPerDay_def clock_def)
  from GetProviderAvailability_partition [OF h, of exampleDay] h show ?thesis
    unfolding d by blast
qed

text \<open>
  Claim C4. A returned slot is marked unavailable exactly when some appointment of the
  provider that is not cancelled and whose start time lies in
  \<open>[dayStart, dayStart + 24h)\<close> satisfies \<open>slot.start < appt.end\<close> and
  \<open>slot.end > appt.start\<close>. With the single booking 10:00 to 10:30, the fifth slot
  (10:00 to 10:30) is the only unavailable one of the 18.
\<close>

theorem GetProviderAvailability_marks:
  assumes "GetProviderAvailability s providerID date = Inr slots" and "slot \<in> set slots"
  shows "((\<not> Available slot) =
     (\<exists>a\<in>set (appointments (db s)).
        ProviderID a = providerID \<and> Status a \<noteq> AppointmentStatusCancelled
        \<and> Date date 0 \<le> StartTime a \<and> StartTime a < Date date 0 + 86400000000000
        \<and> SlotStartTime slot < EndTime a \<and> SlotEndTime slot > StartTime a))
   \<and> map Available (projr (GetProviderAvailability (bookedService (clock 10 0) 30) 2 exampleDay))
       = replicate 4 True @ [False] @ replicate 13 True"
proof -
  have p: "providerID \<in> set (users (db s))"
    using assms(1) by (auto simp: GetProviderAvailability_def split: if_splits)
  from assms GetProviderAvailability_eq [OF p, of date]
  obtain i where "slot = mkSlot (appointmentsOfDay s providerID (Date date 0)
                                   (Date date 0 + 86400000000000))
                 (Date date 8 + int i * 1800000000000)"
    by auto
  then show ?thesis
    using scenario_one_booking by (auto simp: slotIsAvailable_iff set_appointmentsOfDay)
qed

theorem GetProviderAvailability_marks_witness:
  "GetProviderAvailability (bookedService (clock 10 0) 30) 2 exampleDay
     = Inr (projr (GetProviderAvailability (bookedService (clock 10 0) 30) 2 exampleDay))
   \<and> projr (GetProviderAvailability (bookedService (clock 10 0) 30) 2 exampleDay) ! 4
       \<in> set (projr (GetProviderAvailability (bookedService (clock 10 0) 30) 2 exampleDay))
   \<and> \<not> Available (projr (GetProviderAvailability (bookedService (clock 10 0) 30) 2 exampleDay) ! 4)
   \<and> (\<exists>a\<in>set (appointments (db (bookedService (clock 10 0) 30))).
        ProviderID a = 2 \<and> Status a \<noteq> AppointmentStatusCancelled
        \<and> StartTime a = clock 10 0 \<and> EndTime a = clock 10 30)"
proof -
  let ?slots = "projr (GetProviderAvailability (bookedService (clock 10 0) 30) 2 exampleDay)"
  have h1: "GetProviderAvailability (bookedService (clock 10 0) 30) 2 exampleDay = Inr ?slots"
    by (simp add: GetProviderAvailability_eq [OF booked_provider])
  have len: "length ?slots = 18"
    by (simp add: GetProviderAvailability_eq [OF booked_provider])
  then have h2: "?slots ! 4 \<in> set ?slots" by simp
  have un: "\<not> Available (?slots ! 4)"
    using arg_cong [OF scenario_one_booking, of "\<lambda>bs. bs ! 4"] len
    by (simp add: eval_nat_numeral)
  have ex: "\<exists>a\<in>set (appointments (db (bookedService (clock 10 0) 30))).
        ProviderID a = 2 \<and> Status a \<noteq> AppointmentStatusCancelled
        \<and> StartTime a = clock 10 0 \<and> EndTime a = clock 10 30"
    by (simp add: bookedService_eq status_defs Add_def clock_eq Minute_def Second_def Nanosecond_def)
  from GetProviderAvailability_marks [OF h1 h2] h1 h2 un ex show ?thesis by blast
qed


subsection \<open>Rows: lookup and save\<close>

lemma First_SomeD: "First rows i = Some a \<Longrightarrow> ID a = i \<and> a \<in> set rows"
  by (auto simp: First_def find_Some_iff)

lemma First_None_iff: "(First rows i = None) = (\<forall>r\<in>set rows. ID r \<noteq> i)"
  by (auto simp: First_def find_None_iff)

lemma find_replace:
  "find (\<lambda>r. ID r = i) rows = Some a \<Longrightarrow> ID x = i \<Longrightarrow>
   find (\<lambda>r. ID r = i) (map (\<lambda>r. if ID r = i then x else r) rows) = Some x"
  by (induction rows) (auto split: if_splits)


lemma ID_BeforeUpdate [simp]: "ID (BeforeUpdate t row) = ID row"
  by (simp add: BeforeUpdate_def)

lemma First_Save:
  "First rows i = Some a \<Longrightarrow> ID row = i \<Longrightarrow>
   First (snd (Save t rows row)) i = Some (BeforeUpdate t row)"
  by (simp add: Save_def Let_def First_def find_replace)

lemma length_Save [simp]: "length (snd (Save t rows row)) = length rows"
  by (simp add: Save_def Let_def)

lemma nth_Save_other:
  "k < length rows \<Longrightarrow> ID (rows ! k) \<noteq> ID row \<Longrightarrow> snd (Save t rows row) ! k = rows ! k"
  by (simp add: Save_def Let_def)

subsection \<open>Appointment lifecycle\<close>

lemma CancelAppointment_Some:
  assumes "First (appointments (db s)) id' = Some a"
  shows "CancelAppointment s id' reason cancelledBy now hookNow =
     Inr (s\<lparr>db := (db s)\<lparr>appointments := snd (Save hookNow (appointments (db s))
                 (a\<lparr>Status := AppointmentStatusCancelled, CancelledAt := Some now,
                    CancellationReason := reason, UpdatedBy := cancelledBy\<rparr>))\<rparr>,
            natsClient := Publish (natsClient s) SubjectAppointmentCancelled
              [(''appointment_id'', VUUID id'), (''patient_id'', VUUID (PatientID a)),
               (''provider_id'', VUUID (ProviderID a)), (''reason'', VString reason),
               (''cancelled_by'', VUUID cancelledBy)]\<rparr>)"
  using assms First_SomeD [OF assms]
  by (simp add: CancelAppointment_def Save_def Let_def BeforeUpdate_def)

text \<open>
  Claim C5, as amended. \<^verbatim>\<open>CancelAppointment\<close> does not look at the current status:
  it fails only when no appointment has the id (not found); for an existing appointment in
  any status it sets the status to cancelled, records the cancellation time, the reason
  given and the caller as last modifier, and calls \<^verbatim>\<open>Publish\<close> with the subject
  \<^verbatim>\<open>appointment.cancelled\<close>, which appends the event when the client is connected.
\<close>

theorem CancelAppointment_any_status:
  "(First (appointments (db s)) id' = None \<longrightarrow>
      CancelAppointment s id' reason cancelledBy now hookNow = Inl (ErrAppointmentNotFound id'))
   \<and> (\<forall>a. First (appointments (db s)) id' = Some a \<longrightarrow>
      (\<exists>s'. CancelAppointment s id' reason cancelledBy now hookNow = Inr s'
         \<and> First (appointments (db s')) id' =
             Some (a\<lparr>Status := AppointmentStatusCancelled, CancelledAt := Some now,
                     CancellationReason := reason, UpdatedBy := cancelledBy,
                     UpdatedAt := hookNow\<rparr>)
         \<and> natsClient s' = Publish (natsClient s) SubjectAppointmentCancelled
              [(''appointment_id'', VUUID id'), (''patient_id'', VUUID (PatientID a)),
               (''provider_id'', VUUID (ProviderID a)), (''reason'', VString reason),
               (''cancelled_by'', VUUID cancelledBy)]
         \<and> (\<forall>log. natsClient s = Some log \<longrightarrow>
               natsClient s' = Some (log @ [(SubjectAppointmentCancelled,
                 [(''appointment_id'', VUUID id'), (''patient_id'', VUUID (PatientID a)),
                  (''provider_id'', VUUID (ProviderID a)), (''reason'', VString reason),
                  (''cancelled_by'', VUUID cancelledBy)])]))))"
proof (intro conjI allI impI)
  assume "First (appointments (db s)) id' = None"
  then show "CancelAppointment s id' reason cancelledBy now hookNow = Inl (ErrAppointmentNotFound id')"
    by (simp add: CancelAppointment_def)
next
  fix a assume a: "First (appointments (db s)) id' = Some a"
  let ?a1 = "a\<lparr>Status := AppointmentStatusCancelled, CancelledAt := Some now,
                    CancellationReason := reason, UpdatedBy := cancelledBy\<rparr>"
  have id: "ID ?a1 = id'" using First_SomeD [OF a] by simp
  have f: "First (snd (Save hookNow (appointments (db s)) ?a1)) id' = Some (BeforeUpdate hookNow ?a1)"
    by (rule First_Save [OF a id])
  show "\<exists>s'. CancelAppointment s id' reason cancelledBy now hookNow = Inr s'
         \<and> First (appointments (db s')) id' =
             Some (a\<lparr>Status := AppointmentStatusCancelled, CancelledAt := Some now,
                     CancellationReason := reason, UpdatedBy := cancelledBy,
                     UpdatedAt := hookNow\<rparr>)
         \<and> natsClient s' = Publish (natsClient s) SubjectAppointmentCancelled
              [(''appointment_id'', VUUID id'), (''patient_id'', VUUID (PatientID a)),
               (''provider_id'', VUUID (ProviderID a)), (''reason'', VString reason),
               (''cancelled_by'', VUUID cancelledBy)]
         \<and> (\<forall>log. natsClient s = Some log \<longrightarrow>
               natsClient s' = Some (log @ [(SubjectAppointmentCancelled,
                 [(''appointment_id'', VUUID id'), (''patient_id'', VUUID (PatientID a)),
                  (''provider_id'', VUUID (ProviderID a)), (''reason'', VString reason),
                  (''cancelled_by'', VUUID cancelledBy)])]))"
    unfolding CancelAppointment_Some [OF a]
    using f by (simp add: BeforeUpdate_def Publish_def)
qed

lemmas lifecycle_defs =
  CancelAppointment_def CheckInAppointment_def First_def Save_def BeforeUpdate_def Publish_def
  withStatus_def Let_def

lemma First_booked:
  "First (appointments (db (bookedService start minutes))) 100
     = Some (hd (appointments (db (bookedService start minutes))))"
  by (simp add: bookedService_eq First_def)

lemma First_withStatus:
  "First (appointments (db (withStatus st (bookedService start minutes)))) 100
     = Some (hd (appointments (db (withStatus st (bookedService start minutes)))))"
  by (simp add: bookedService_eq First_def withStatus_def)

lemma First_booked_missing:
  "First (appointments (db (withStatus st (bookedService start minutes)))) 999 = None"
  by (simp add: bookedService_eq First_def withStatus_def)

text \<open>
  Claim C5 as stated fails: cancelling an appointment whose status is completed (the seed
  data holds one) is not rejected; it succeeds and leaves the appointment cancelled.
\<close>

theorem CancelAppointment_completed_counterexample:
  "map Status (appointments (db (withStatus AppointmentStatusCompleted (bookedService (clock 9 0) 30))))
      = [AppointmentStatusCompleted]
   \<and> \<not> isl (CancelAppointment (withStatus AppointmentStatusCompleted (bookedService (clock 9 0) 30))
               100 ''late'' 7 (clock 11 0) (clock 11 0 + 1000))
   \<and> map Status (appointments (db (projr
        (CancelAppointment (withStatus AppointmentStatusCompleted (bookedService (clock 9 0) 30))
               100 ''late'' 7 (clock 11 0) (clock 11 0 + 1000)))))
      = [AppointmentStatusCancelled]"
  by (simp add: bookedService_eq lifecycle_defs)

text \<open>
  The cancellation theorem at the completed appointment 100 and at the unknown id 999.
\<close>

theorem CancelAppointment_any_status_witness:
  "First (appointments (db (withStatus AppointmentStatusCompleted (bookedService (clock 9 0) 30)))) 999 = None
   \<and> CancelAppointment (withStatus AppointmentStatusCompleted (bookedService (clock 9 0) 30))
        999 ''late'' 7 (clock 11 0) (clock 11 0 + 1000) = Inl (ErrAppointmentNotFound 999)
   \<and> First (appointments (db (withStatus AppointmentStatusCompleted (bookedService (clock 9 0) 30)))) 100
       = Some (hd (appointments (db (withStatus AppointmentStatusCompleted (bookedService (clock 9 0) 30)))))
   \<and> (\<exists>s'. CancelAppointment (withStatus AppointmentStatusCompleted (bookedService (clock 9 0) 30))
              100 ''late'' 7 (clock 11 0) (clock 11 0 + 1000) = Inr s'
         \<and> map Status (appointments (db s')) = [AppointmentStatusCancelled]
         \<and> map CancelledAt (appointments (db s')) = [Some (clock 11 0)]
         \<and> map CancellationReason (appointments (db s')) = [''late'']
         \<and> map fst (the (natsClient s')) = [SubjectAppointmentBooked, SubjectAppointmentCancelled])"
proof -
  let ?s = "withStatus AppointmentStatusCompleted (bookedService (clock 9 0) 30)"
  have n: "First (appointments (db ?s)) 999 = None" by (rule First_booked_missing)
  have h: "First (appointments (db ?s)) 100 = Some (hd (appointments (db ?s)))"
    by (rule First_withStatus)
  from CancelAppointment_any_status [of ?s 999 "''late''" 7 "clock 11 0" "clock 11 0 + 1000"] n
  have e: "CancelAppointment ?s 999 ''late'' 7 (clock 11 0) (clock 11 0 + 1000)
             = Inl (ErrAppointmentNotFound 999)"
    by blast
  from CancelAppointment_any_status [of ?s 100 "''late''" 7 "clock 11 0" "clock 11 0 + 1000"] h
  obtain s' where s': "CancelAppointment ?s 100 ''late'' 7 (clock 11 0) (clock 11 0 + 1000) = Inr s'"
    by blast
  have p: "map Status (appointments (db s')) = [AppointmentStatusCancelled]
         \<and> map CancelledAt (appointments (db s')) = [Some (clock 11 0)]
         \<and> map CancellationReason (appointments (db s')) = [''late'']
         \<and> map fst (the (natsClient s')) = [SubjectAppointmentBooked, SubjectAppointmentCancelled]"
    using s' by (auto simp: bookedService_eq lifecycle_defs)
  show ?thesis
    by (intro conjI exI [of _ s']) (rule n e h s' p [THEN conjunct1] p [THEN conjunct2, THEN conjunct1]
          p [THEN conjunct2, THEN conjunct2, THEN conjunct1] p [THEN conjunct2, THEN conjunct2, THEN conjunct2])+
qed


lemma CheckInAppointment_Some:
  assumes "First (appointments (db s)) id' = Some a"
  shows "CheckInAppointment s id' now hookNow =
     Inr (s\<lparr>db := (db s)\<lparr>appointments := snd (Save hookNow (appointments (db s))
                 (a\<lparr>Status := AppointmentStatusCheckedIn, CheckedInAt := Some now\<rparr>))\<rparr>\<rparr>)"
  using assms by (simp add: CheckInAppointment_def Save_def Let_def)

text \<open>
  Claim C6, as amended. \<^verbatim>\<open>CheckInAppointment\<close> does not look at the current status:
  it fails only when no appointment has the id (not found); for an existing appointment in
  any status it sets the status to checked-in and the check-in time to the current time,
  and publishes nothing.
\<close>

theorem CheckInAppointment_any_status:
  "(First (appointments (db s)) id' = None \<longrightarrow>
      CheckInAppointment s id' now hookNow = Inl (ErrAppointmentNotFound id'))
   \<and> (\<forall>a. First (appointments (db s)) id' = Some a \<longrightarrow>
      (\<exists>s'. CheckInAppointment s id' now hookNow = Inr s'
         \<and> First (appointments (db s')) id' =
             Some (a\<lparr>Status := AppointmentStatusCheckedIn, CheckedInAt := Some now,
                     UpdatedAt := hookNow\<rparr>)
         \<and> natsClient s' = natsClient s))"
proof (intro conjI allI impI)
  assume "First (appointments (db s)) id' = None"
  then show "CheckInAppointment s id' now hookNow = Inl (ErrAppointmentNotFound id')"
    by (simp add: CheckInAppointment_def)
next
  fix a assume a: "First (appointments (db s)) id' = Some a"
  let ?a1 = "a\<lparr>Status := AppointmentStatusCheckedIn, CheckedInAt := Some now\<rparr>"
  have id: "ID ?a1 = id'" using First_SomeD [OF a] by simp
  have f: "First (snd (Save hookNow (appointments (db s)) ?a1)) id' = Some (BeforeUpdate hookNow ?a1)"
    by (rule First_Save [OF a id])
  show "\<exists>s'. CheckInAppointment s id' now hookNow = Inr s'
         \<and> First (appointments (db s')) id' =
             Some (a\<lparr>Status := AppointmentStatusCheckedIn, CheckedInAt := Some now,
                     UpdatedAt := hookNow\<rparr>)
         \<and> natsClient s' = natsClient s"
    unfolding CheckInAppointment_Some [OF a]
    using f by (simp add: BeforeUpdate_def)
qed

lemma cancelledService_eq:
  "cancelledService =
     \<lparr>db = \<lparr>patients = [1], users = [2],
        appointments = [\<lparr>ID = 100, CreatedAt = clock 7 0 + 123460000, UpdatedAt = clock 8 0 + 1000,
           CreatedBy = 7, UpdatedBy = 7,
           AppointmentNumber = generateAppointmentNumber (clock 7 0 + 123456789),
           PatientID = 1, ProviderID = 2, AppointmentType = ''consultation'',
           Status = AppointmentStatusCancelled, StartTime = clock 9 0,
           EndTime = Add (clock 9 0) (30 * Minute), Duration = 30,
           Department = ''cardiology'', Location = [], Room = [], ReasonForVisit = [], Notes = [],
           ReminderSent = False, ReminderSentAt = None, CheckedInAt = None,
           CancelledAt = Some (clock 8 0), CancellationReason = ''patient request''\<rparr>],
        encounters = []\<rparr>,
      natsClient = Some [(SubjectAppointmentBooked,
          [(''appointment_id'', VUUID 100),
           (''appointment_number'', VString (generateAppointmentNumber (clock 7 0 + 123456789))),
           (''patient_id'', VUUID 1), (''provider_id'', VUUID 2),
           (''start_time'', VTime (clock 9 0)), (''created_by'', VUUID 7)]),
         (SubjectAppointmentCancelled,
          [(''appointment_id'', VUUID 100), (''patient_id'', VUUID 1), (''provider_id'', VUUID 2),
           (''reason'', VString ''patient request''), (''cancelled_by'', VUUID 7)])]\<rparr>"
  by (simp add: cancelledService_def bookedService_eq lifecycle_defs)

text \<open>
  Claim C6 as stated fails: checking in an appointment that has been cancelled does not
  fail; it succeeds and the appointment is checked in.
\<close>

theorem CheckInAppointment_cancelled_counterexample:
  "map Status (appointments (db cancelledService)) = [AppointmentStatusCancelled]
   \<and> \<not> isl (CheckInAppointment cancelledService 100 (clock 8 50) (clock 8 50 + 1000))
   \<and> map Status (appointments (db (projr
        (CheckInAppointment cancelledService 100 (clock 8 50) (clock 8 50 + 1000)))))
      = [AppointmentStatusCheckedIn]"
  by (simp add: cancelledService_eq lifecycle_defs)

text \<open>
  The check-in theorem at the cancelled appointment 100 and at the unknown id 999.
\<close>

theorem CheckInAppointment_any_status_witness:
  "First (appointments (db cancelledService)) 999 = None
   \<and> CheckInAppointment cancelledService 999 (clock 8 50) (clock 8 50 + 1000)
        = Inl (ErrAppointmentNotFound 999)
   \<and> First (appointments (db cancelledService)) 100 = Some (hd (appointments (db cancelledService)))
   \<and> (\<exists>s'. CheckInAppointment cancelledService 100 (clock 8 50) (clock 8 50 + 1000) = Inr s'
         \<and> map Status (appointments (db s')) = [AppointmentStatusCheckedIn]
         \<and> map CheckedInAt (appointments (db s')) = [Some (clock 8 50)])"
proof -
  have n: "First (appointments (db cancelledService)) 999 = None"
    by (simp add: cancelledService_eq First_def)
  have h: "First (appointments (db cancelledService)) 100 = Some (hd (appointments (db cancelledService)))"
    by (simp add: cancelledService_eq First_def)
  from CheckInAppointment_any_status [of cancelledService 999 "clock 8 50" "clock 8 50 + 1000"] n
  have e: "CheckInAppointment cancelledService 999 (clock 8 50) (clock 8 50 + 1000)
             = Inl (ErrAppointmentNotFound 999)"
    by blast
  from CheckInAppointment_any_status [of cancelledService 100 "clock 8 50" "clock 8 50 + 1000"] h
  obtain s' where s': "CheckInAppointment cancelledService 100 (clock 8 50) (clock 8 50 + 1000) = Inr s'"
    by blast
  have p: "map Status (appointments (db s')) = [AppointmentStatusCheckedIn]
         \<and> map CheckedInAt (appointments (db s')) = [Some (clock 8 50)]"
    using s' by (auto simp: cancelledService_eq lifecycle_defs)
  show ?thesis
    by (intro conjI exI [of _ s']) (rule n e h s' p [THEN conjunct1] p [THEN conjunct2])+
qed

text \<open>
  Claim C9, as amended. Cancelling an appointment that is already cancelled is neither
  refused nor a no-op: the call succeeds, overwrites the cancellation time, the reason and
  the last modifier, and a connected messaging client publishes the cancellation event
  once more.
\<close>

theorem CancelAppointment_again:
  assumes "First (appointments (db s)) id' = Some a"
    and "Status a = AppointmentStatusCancelled"
    and "natsClient s = Some log"
  shows "\<exists>s' a'. CancelAppointment s id' reason cancelledBy now hookNow = Inr s'
     \<and> First (appointments (db s')) id' = Some a'
     \<and> Status a' = AppointmentStatusCancelled
     \<and> CancelledAt a' = Some now
     \<and> CancellationReason a' = reason
     \<and> UpdatedBy a' = cancelledBy
     \<and> natsClient s' = Some (log @ [(SubjectAppointmentCancelled,
          [(''appointment_id'', VUUID id'), (''patient_id'', VUUID (PatientID a)),
           (''provider_id'', VUUID (ProviderID a)), (''reason'', VString reason),
           (''cancelled_by'', VUUID cancelledBy)])])"
proof -
  let ?a1 = "a\<lparr>Status := AppointmentStatusCancelled, CancelledAt := Some now,
                    CancellationReason := reason, UpdatedBy := cancelledBy\<rparr>"
  have id: "ID ?a1 = id'" using First_SomeD [OF assms(1)] by simp
  have f: "First (snd (Save hookNow (appointments (db s)) ?a1)) id' = Some (BeforeUpdate hookNow ?a1)"
    by (rule First_Save [OF assms(1) id])
  show ?thesis
    unfolding CancelAppointment_Some [OF assms(1)]
    using f assms(3) by (simp add: BeforeUpdate_def Publish_def)
qed

text \<open>
  Claim C9 as stated fails: a second cancellation of appointment 100 returns no error,
  replaces the cancellation time 08:00 by 08:30 and adds a second cancellation event to
  the two messages published before.
\<close>

theorem CancelAppointment_again_counterexample:
  "map Status (appointments (db cancelledService)) = [AppointmentStatusCancelled]
   \<and> map CancelledAt (appointments (db cancelledService)) = [Some (clock 8 0)]
   \<and> length (the (natsClient cancelledService)) = 2
   \<and> \<not> isl (CancelAppointment cancelledService 100 ''again'' 8 (clock 8 30) (clock 8 30 + 1000))
   \<and> map CancelledAt (appointments (db (projr
        (CancelAppointment cancelledService 100 ''again'' 8 (clock 8 30) (clock 8 30 + 1000)))))
      = [Some (clock 8 30)]
   \<and> map fst (the (natsClient (projr
        (CancelAppointment cancelledService 100 ''again'' 8 (clock 8 30) (clock 8 30 + 1000)))))
      = [SubjectAppointmentBooked, SubjectAppointmentCancelled, SubjectAppointmentCancelled]"
  by (simp add: cancelledService_eq lifecycle_defs clock_eq)

text \<open>
  The theorem on repeated cancellation at the cancelled appointment 100.
\<close>

theorem CancelAppointment_again_witness:
  "First (appointments (db cancelledService)) 100 = Some (hd (appointments (db cancelledService)))
   \<and> Status (hd (appointments (db cancelledService))) = AppointmentStatusCancelled
   \<and> natsClient cancelledService = Some (the (natsClient cancelledService))
   \<and> (\<exists>s'. CancelAppointment cancelledService 100 ''again'' 8 (clock 8 30) (clock 8 30 + 1000) = Inr s'
         \<and> length (the (natsClient s')) = 3)"
proof -
  have h1: "First (appointments (db cancelledService)) 100 = Some (hd (appointments (db cancelledService)))"
    by (simp add: cancelledService_eq First_def)
  have h2: "Status (hd (appointments (db cancelledService))) = AppointmentStatusCancelled"
    by (simp add: cancelledService_eq)
  have h3: "natsClient cancelledService = Some (the (natsClient cancelledService))"
    by (simp add: cancelledService_eq)
  have l: "length (the (natsClient cancelledService)) = 2"
    by (simp add: cancelledService_eq)
  from CancelAppointment_again [OF h1 h2 h3, of "''again''" 8 "clock 8 30" "clock 8 30 + 1000"]
  obtain s' where s': "CancelAppointment cancelledService 100 ''again'' 8 (clock 8 30) (clock 8 30 + 1000) = Inr s'"
    and "length (the (natsClient s')) = 3"
    using l by auto
  then show ?thesis using h1 h2 h3 by (intro conjI exI [of _ s']) assumption+
qed


subsection \<open>The interval of a stored appointment\<close>










subsection \<open>Encounter lifecycle\<close>

lemma UpdateEncounter_Some:
  assumes "First (encounters (db s)) id' = Some e"
  shows "UpdateEncounter s id' status updatedBy now hookNow =
     Inr (BeforeUpdate hookNow
            (if status = EncounterStatusCompleted
             then e\<lparr>EncStatus := status, UpdatedBy := updatedBy, DischargeDate := Some now\<rparr>
             else e\<lparr>EncStatus := status, UpdatedBy := updatedBy\<rparr>),
          s\<lparr>db := (db s)\<lparr>encounters := snd (Save hookNow (encounters (db s))
                 (if status = EncounterStatusCompleted
                  then e\<lparr>EncStatus := status, UpdatedBy := updatedBy, DischargeDate := Some now\<rparr>
                  else e\<lparr>EncStatus := status, UpdatedBy := updatedBy\<rparr>))\<rparr>,
            natsClient := Publish (natsClient s) SubjectEncounterUpdated
              [(''encounter_id'', VUUID id'), (''status'', VString status),
               (''updated_by'', VUUID updatedBy)]\<rparr>)"
  using assms First_SomeD [OF assms]
  by (simp add: UpdateEncounter_def Save_def Let_def BeforeUpdate_def)

text \<open>
  Claim C7, as amended. For an existing encounter, \<^verbatim>\<open>UpdateEncounter\<close> with the
  status completed succeeds, sets the status to completed and the discharge time to the
  current time, and leaves the admission time as it was; the discharge time is at or after
  the admission time exactly when the admission time is not later than the current time.
  Calling it again with completed succeeds and sets the discharge time to the time of the
  second call.
\<close>

theorem UpdateEncounter_completed:
  assumes "First (encounters (db s)) id' = Some e"
  shows "\<exists>e' s'. UpdateEncounter s id' EncounterStatusCompleted updatedBy now hookNow = Inr (e', s')
     \<and> e' = e\<lparr>EncStatus := EncounterStatusCompleted, UpdatedBy := updatedBy,
               DischargeDate := Some now, UpdatedAt := hookNow\<rparr>
     \<and> First (encounters (db s')) id' = Some e'
     \<and> EncStatus e' = EncounterStatusCompleted
     \<and> DischargeDate e' = Some now
     \<and> AdmissionDate e' = AdmissionDate e
     \<and> ((\<exists>d. DischargeDate e' = Some d \<and> AdmissionDate e' \<le> d) = (AdmissionDate e \<le> now))
     \<and> (\<forall>updatedBy2 now2 hookNow2. \<exists>e'' s''.
           UpdateEncounter s' id' EncounterStatusCompleted updatedBy2 now2 hookNow2 = Inr (e'', s'')
           \<and> EncStatus e'' = EncounterStatusCompleted
           \<and> DischargeDate e'' = Some now2)"
proof -
  let ?e1 = "e\<lparr>EncStatus := EncounterStatusCompleted, UpdatedBy := updatedBy, DischargeDate := Some now\<rparr>"
  let ?s' = "s\<lparr>db := (db s)\<lparr>encounters := snd (Save hookNow (encounters (db s)) ?e1)\<rparr>,
            natsClient := Publish (natsClient s) SubjectEncounterUpdated
              [(''encounter_id'', VUUID id'), (''status'', VString EncounterStatusCompleted),
               (''updated_by'', VUUID updatedBy)]\<rparr>"
  have id: "ID ?e1 = id'" using First_SomeD [OF assms] by simp
  have r: "UpdateEncounter s id' EncounterStatusCompleted updatedBy now hookNow
             = Inr (BeforeUpdate hookNow ?e1, ?s')"
    by (simp add: UpdateEncounter_Some [OF assms])
  have f: "First (encounters (db ?s')) id' = Some (BeforeUpdate hookNow ?e1)"
    using First_Save [OF assms id, of hookNow] by simp
  have again: "\<exists>e'' s''.
           UpdateEncounter ?s' id' EncounterStatusCompleted updatedBy2 now2 hookNow2 = Inr (e'', s'')
           \<and> EncStatus e'' = EncounterStatusCompleted
           \<and> DischargeDate e'' = Some now2" for updatedBy2 now2 hookNow2
    by (simp add: UpdateEncounter_Some [OF f] BeforeUpdate_def)
  show ?thesis
    apply (rule exI [of _ "BeforeUpdate hookNow ?e1"])
    apply (rule exI [of _ ?s'])
    apply (intro conjI)
           apply (rule r)
          apply (simp add: BeforeUpdate_def)
         apply (rule f)
        apply (simp add: BeforeUpdate_def)
       apply (simp add: BeforeUpdate_def)
      apply (simp add: BeforeUpdate_def)
     apply (simp add: BeforeUpdate_def)
    using again apply blast
    done
qed

text \<open>
  Claim C10. For an existing encounter and any new status other than completed,
  \<^verbatim>\<open>UpdateEncounter\<close> succeeds and the encounter it returns and stores has the new
  status and the discharge time it had before; the table keeps its length and every row
  with another id is unchanged.
\<close>

theorem UpdateEncounter_keeps_discharge:
  assumes "First (encounters (db s)) id' = Some e" and "status \<noteq> EncounterStatusCompleted"
  shows "\<exists>e' s'. UpdateEncounter s id' status updatedBy now hookNow = Inr (e', s')
     \<and> EncStatus e' = status
     \<and> DischargeDate e' = DischargeDate e
     \<and> First (encounters (db s')) id' = Some e'
     \<and> length (encounters (db s')) = length (encounters (db s))
     \<and> (\<forall>k<length (encounters (db s)). ID (encounters (db s) ! k) \<noteq> id' \<longrightarrow>
           encounters (db s') ! k = encounters (db s) ! k)"
proof -
  let ?e1 = "e\<lparr>EncStatus := status, UpdatedBy := updatedBy\<rparr>"
  let ?s' = "s\<lparr>db := (db s)\<lparr>encounters := snd (Save hookNow (encounters (db s)) ?e1)\<rparr>,
            natsClient := Publish (natsClient s) SubjectEncounterUpdated
              [(''encounter_id'', VUUID id'), (''status'', VString status),
               (''updated_by'', VUUID updatedBy)]\<rparr>"
  have id: "ID ?e1 = id'" using First_SomeD [OF assms(1)] by simp
  have r: "UpdateEncounter s id' status updatedBy now hookNow = Inr (BeforeUpdate hookNow ?e1, ?s')"
    using assms(2) by (simp add: UpdateEncounter_Some [OF assms(1)])
  have f: "First (encounters (db ?s')) id' = Some (BeforeUpdate hookNow ?e1)"
    using First_Save [OF assms(1) id, of hookNow] by simp
  have others: "\<forall>k<length (encounters (db s)). ID (encounters (db s) ! k) \<noteq> id' \<longrightarrow>
           encounters (db ?s') ! k = encounters (db s) ! k"
    using id by (simp add: nth_Save_other)
  show ?thesis
    apply (rule exI [of _ "BeforeUpdate hookNow ?e1"])
    apply (rule exI [of _ ?s'])
    apply (intro conjI)
         apply (rule r)
        apply (simp add: BeforeUpdate_def)
       apply (simp add: BeforeUpdate_def)
      apply (rule f)
     apply simp
    apply (rule others)
    done
qed

lemmas encounter_defs =
  UpdateEncounter_def First_def Save_def BeforeUpdate_def Publish_def Let_def

lemma admittedService_eq:
  "admittedService =
     \<lparr>db = \<lparr>patients = [1], users = [2], appointments = [],
        encounters = [\<lparr>ID = 200, CreatedAt = clock 7 0 + 99, UpdatedAt = clock 7 0 + 99,
           CreatedBy = 7, UpdatedBy = 7,
           EncounterNumber = generateEncounterNumber (clock 7 0 + 5),
           EncPatientID = 1, EncProviderID = 2, EncounterType = ''outpatient'',
           EncStatus = EncounterStatusScheduled, Priority = ''routine'',
           EncDepartment = ''cardiology'', EncLocation = [], AdmissionDate = clock 14 0,
           DischargeDate = None, ChiefComplaint = [], EncReasonForVisit = []\<rparr>]\<rparr>,
      natsClient = Some [(SubjectEncounterCreated,
          [(''encounter_id'', VUUID 200),
           (''encounter_number'', VString (generateEncounterNumber (clock 7 0 + 5))),
           (''patient_id'', VUUID 1), (''provider_id'', VUUID 2), (''created_by'', VUUID 7)])]\<rparr>"
  by (simp add: admittedService_def CreateEncounter_def CreateEncounterRow_def BeforeCreate_def
      Nil_uuid_def Publish_def emptyService_def admission_def Let_def)

lemma completedService_encounters:
  "encounters (db completedService) =
     [\<lparr>ID = 200, CreatedAt = clock 7 0 + 99, UpdatedAt = clock 15 0 + 1000,
           CreatedBy = 7, UpdatedBy = 7,
           EncounterNumber = generateEncounterNumber (clock 7 0 + 5),
           EncPatientID = 1, EncProviderID = 2, EncounterType = ''outpatient'',
           EncStatus = EncounterStatusCompleted, Priority = ''routine'',
           EncDepartment = ''cardiology'', EncLocation = [], AdmissionDate = clock 14 0,
           DischargeDate = Some (clock 15 0), ChiefComplaint = [], EncReasonForVisit = []\<rparr>]"
  by (simp add: completedService_def admittedService_eq encounter_defs)

text \<open>
  Claim C7 as stated fails: the encounter with admission planned for 14:00 is completed at
  09:00 and gets the discharge time 09:00, before its admission time.
\<close>

theorem UpdateEncounter_early_completion_counterexample:
  "AdmissionDate (hd (encounters (db admittedService))) = clock 14 0
   \<and> \<not> isl (UpdateEncounter admittedService 200 EncounterStatusCompleted 7 (clock 9 0) (clock 9 0 + 1000))
   \<and> EncStatus (fst (projr
        (UpdateEncounter admittedService 200 EncounterStatusCompleted 7 (clock 9 0) (clock 9 0 + 1000))))
      = EncounterStatusCompleted
   \<and> AdmissionDate (fst (projr
        (UpdateEncounter admittedService 200 EncounterStatusCompleted 7 (clock 9 0) (clock 9 0 + 1000))))
      = clock 14 0
   \<and> DischargeDate (fst (projr
        (UpdateEncounter admittedService 200 EncounterStatusCompleted 7 (clock 9 0) (clock 9 0 + 1000))))
      = Some (clock 9 0)
   \<and> clock 9 0 < clock 14 0"
  by (simp add: admittedService_eq encounter_defs clock_eq)

text \<open>
  The completion theorem at the encounter 200, completed at 15:00 and once more at 16:00.
\<close>

theorem UpdateEncounter_completed_witness:
  "First (encounters (db admittedService)) 200 = Some (hd (encounters (db admittedService)))
   \<and> (\<exists>e' s'. UpdateEncounter admittedService 200 EncounterStatusCompleted 7 (clock 15 0) (clock 15 0 + 1000)
                 = Inr (e', s')
         \<and> EncStatus e' = EncounterStatusCompleted
         \<and> DischargeDate e' = Some (clock 15 0)
         \<and> AdmissionDate e' = clock 14 0
         \<and> (\<exists>e'' s''. UpdateEncounter s' 200 EncounterStatusCompleted 7 (clock 16 0) (clock 16 0 + 1000)
                 = Inr (e'', s'')
               \<and> DischargeDate e'' = Some (clock 16 0)))"
proof -
  have h: "First (encounters (db admittedService)) 200 = Some (hd (encounters (db admittedService)))"
    by (simp add: admittedService_eq First_def)
  have a: "AdmissionDate (hd (encounters (db admittedService))) = clock 14 0"
    by (simp add: admittedService_eq)
  from UpdateEncounter_completed [OF h, of 7 "clock 15 0" "clock 15 0 + 1000"]
  obtain e' s' where
    r: "UpdateEncounter admittedService 200 EncounterStatusCompleted 7 (clock 15 0) (clock 15 0 + 1000)
          = Inr (e', s')"
    and st: "EncStatus e' = EncounterStatusCompleted"
    and d: "DischargeDate e' = Some (clock 15 0)"
    and ad: "AdmissionDate e' = AdmissionDate (hd (encounters (db admittedService)))"
    and again: "\<forall>updatedBy2 now2 hookNow2. \<exists>e'' s''.
           UpdateEncounter s' 200 EncounterStatusCompleted updatedBy2 now2 hookNow2 = Inr (e'', s'')
           \<and> EncStatus e'' = EncounterStatusCompleted
           \<and> DischargeDate e'' = Some now2"
    by blast
  from again obtain e'' s'' where
    "UpdateEncounter s' 200 EncounterStatusCompleted 7 (clock 16 0) (clock 16 0 + 1000) = Inr (e'', s'')"
    "DischargeDate e'' = Some (clock 16 0)"
    by blast
  then have twice: "\<exists>e'' s''. UpdateEncounter s' 200 EncounterStatusCompleted 7 (clock 16 0) (clock 16 0 + 1000)
                 = Inr (e'', s'')
               \<and> DischargeDate e'' = Some (clock 16 0)"
    by blast
  have ad': "AdmissionDate e' = clock 14 0" using ad a by simp
  show ?thesis
    apply (rule conjI, rule h)
    apply (rule exI [of _ e'], rule exI [of _ s'])
    apply (intro conjI)
        apply (rule r st d ad' twice)+
    done
qed

text \<open>
  The frame theorem at the completed encounter 200 moved back to scheduled: its discharge
  time 15:00 stays.
\<close>

theorem UpdateEncounter_keeps_discharge_witness:
  "First (encounters (db completedService)) 200 = Some (hd (encounters (db completedService)))
   \<and> EncounterStatusScheduled \<noteq> EncounterStatusCompleted
   \<and> EncStatus (hd (encounters (db completedService))) = EncounterStatusCompleted
   \<and> DischargeDate (hd (encounters (db completedService))) = Some (clock 15 0)
   \<and> (\<exists>e' s'. UpdateEncounter completedService 200 EncounterStatusScheduled 7 (clock 16 0) (clock 16 0 + 1000)
                 = Inr (e', s')
         \<and> EncStatus e' = EncounterStatusScheduled
         \<and> DischargeDate e' = Some (clock 15 0)
         \<and> First (encounters (db s')) 200 = Some e')"
proof -
  have h: "First (encounters (db completedService)) 200 = Some (hd (encounters (db completedService)))"
    by (simp add: completedService_encounters First_def)
  have ne: "EncounterStatusScheduled \<noteq> EncounterStatusCompleted"
    by (simp add: EncounterStatusScheduled_def EncounterStatusCompleted_def)
  have st0: "EncStatus (hd (encounters (db completedService))) = EncounterStatusCompleted"
    by (simp add: completedService_encounters)
  have d0: "DischargeDate (hd (encounters (db completedService))) = Some (clock 15 0)"
    by (simp add: completedService_encounters)
  from UpdateEncounter_keeps_discharge [OF h ne, of 7 "clock 16 0" "clock 16 0 + 1000"]
  obtain e' s' where
    r: "UpdateEncounter completedService 200 EncounterStatusScheduled 7 (clock 16 0) (clock 16 0 + 1000)
          = Inr (e', s')"
    and st: "EncStatus e' = EncounterStatusScheduled"
    and d: "DischargeDate e' = DischargeDate (hd (encounters (db completedService)))"
    and f: "First (encounters (db s')) 200 = Some e'"
    by blast
  have d': "DischargeDate e' = Some (clock 15 0)" using d d0 by simp
  show ?thesis
    by (intro conjI exI [of _ e'] exI [of _ s']) (rule h ne st0 d0 r st d' f)+
qed

end
